theory Spec2Isabelle
  imports Main "HOL-Library.Multiset"
begin

section \<open>Python values\<close>

text \<open>
  The value \<open>request.get_json()\<close> returns: \<open>None\<close> (\<open>JNull\<close>), a bool, a number, a
  string, a list or a dict. A dict is kept as the list of its items in insertion order;
  \<open>d.get(k)\<close> reads the first item under \<open>k\<close>. Only the zero-ness of a number is ever
  inspected by the handlers, so numbers are integers. A \<open>str\<close> is a \<open>string\<close>: a list of
  characters below 256.
\<close>

datatype json =
    JNull
  | JBool bool
  | JNum int
  | JStr string
  | JList "json list"
  | JDict "(string \<times> json) list"

text \<open>The exceptions the handlers can meet.\<close>

datatype exn =
    AttributeError
  | TypeError
  | KeyError
  | RuntimeError
  | BadRequest
  | FileNotFoundError
  | NotFound

text \<open>Truth value of a Python object, as \<open>not x\<close> and \<open>x or y\<close> read it.\<close>

fun truthy :: "json \<Rightarrow> bool" where
  "truthy JNull = False"
| "truthy (JBool b) = b"
| "truthy (JNum n) = (n \<noteq> 0)"
| "truthy (JStr s) = (s \<noteq> [])"
| "truthy (JList xs) = (xs \<noteq> [])"
| "truthy (JDict kvs) = (kvs \<noteq> [])"

text \<open>\<open>len(x)\<close>: defined on strings, lists and dicts, a \<open>TypeError\<close> elsewhere.\<close>

fun py_len :: "json \<Rightarrow> exn + nat" where
  "py_len (JStr s) = Inr (length s)"
| "py_len (JList xs) = Inr (length xs)"
| "py_len (JDict kvs) = Inr (length kvs)"
| "py_len _ = Inl TypeError"

text \<open>\<open>x.get(k, default)\<close>: only a dict has the method.\<close>

fun py_get :: "json \<Rightarrow> string \<Rightarrow> json \<Rightarrow> exn + json" where
  "py_get (JDict kvs) k dflt = Inr (case map_of kvs k of None \<Rightarrow> dflt | Some v \<Rightarrow> v)"
| "py_get _ k dflt = Inl AttributeError"

text \<open>\<open>x[k]\<close> with a string key: a \<open>KeyError\<close> on a dict without the key.\<close>

fun py_item :: "json \<Rightarrow> string \<Rightarrow> exn + json" where
  "py_item (JDict kvs) k = (case map_of kvs k of None \<Rightarrow> Inl KeyError | Some v \<Rightarrow> Inr v)"
| "py_item _ k = Inl TypeError"

text \<open>
  \<open>str.strip()\<close> removes the whitespace characters at both ends; below 256 these are
  the code points 9 to 13, 28 to 32, 133 and 160.
\<close>

definition isspace :: "char \<Rightarrow> bool" where
  "isspace c = (of_char c \<in> {9, 10, 11, 12, 13, 28, 29, 30, 31, 32, 133, 160 :: nat})"

definition strip :: "string \<Rightarrow> string" where
  "strip s = rev (dropWhile isspace (rev (dropWhile isspace s)))"

text \<open>\<open>x.strip()\<close> on a value: only a \<open>str\<close> has the method.\<close>

fun py_strip :: "json \<Rightarrow> exn + string" where
  "py_strip (JStr s) = Inr (strip s)"
| "py_strip _ = Inl AttributeError"

text \<open>
  \<open>x.update(items)\<close> on a dict: an existing key keeps its place and takes the new
  value, a new key is appended. Other values have no \<open>update\<close>.
\<close>

fun dict_set :: "(string \<times> json) list \<Rightarrow> string \<Rightarrow> json \<Rightarrow> (string \<times> json) list" where
  "dict_set [] k v = [(k, v)]"
| "dict_set ((k', v') # kvs) k v =
     (if k' = k then (k, v) # kvs else (k', v') # dict_set kvs k v)"

fun dict_update :: "(string \<times> json) list \<Rightarrow> (string \<times> json) list \<Rightarrow> (string \<times> json) list" where
  "dict_update d [] = d"
| "dict_update d ((k, v) # items) = dict_update (dict_set d k v) items"

fun py_update :: "json \<Rightarrow> (string \<times> json) list \<Rightarrow> exn + json" where
  "py_update (JDict kvs) items = Inr (JDict (dict_update kvs items))"
| "py_update _ items = Inl AttributeError"

text \<open>
  A serialised document. \<open>json.dumps\<close> and \<open>json.loads\<close> are the library's; a text is
  represented by the document it serialises, so that \<open>json.loads(json.dumps(d)) = d\<close>
  holds by construction.
\<close>

datatype json_text = Text json

definition json_dumps :: "json \<Rightarrow> json_text" where
  "json_dumps d = Text d"

fun json_loads :: "json_text \<Rightarrow> json" where
  "json_loads (Text d) = d"

section \<open>Request validation (server/api\_routes.py)\<close>

text \<open>
  \<open>urlparse\<close> is \<open>urllib.parse.urlparse\<close>, taken as a parameter: the two components
  \<open>validate_url\<close> reads, or \<open>None\<close> when the call raises.
\<close>

record parse_result =
  scheme :: string
  netloc :: string

definition validate_url :: "(string \<Rightarrow> parse_result option) \<Rightarrow> string \<Rightarrow> bool" where
  "validate_url urlparse url =
     (case urlparse url of
        None \<Rightarrow> False
      | Some result \<Rightarrow> scheme result \<noteq> [] \<and> netloc result \<noteq> [])"

definition validate_scan_request ::
  "(string \<Rightarrow> parse_result option) \<Rightarrow> json \<Rightarrow> exn + string list" where
  "validate_scan_request urlparse data =
     (case py_get data ''businessName'' JNull of
        Inl e \<Rightarrow> Inl e
      | Inr name \<Rightarrow>
     (let errors1 = (if \<not> truthy name then [''Business name is required''] else []) in
      case py_get data ''businessName'' (JStr []) of
        Inl e \<Rightarrow> Inl e
      | Inr name' \<Rightarrow>
     (case py_len name' of
        Inl e \<Rightarrow> Inl e
      | Inr n \<Rightarrow>
     (let errors2 = errors1 @
            (if n < 1 then [''Business name must be at least 1 character long''] else []) in
      case py_get data ''website'' (JStr []) of
        Inl e \<Rightarrow> Inl e
      | Inr w \<Rightarrow>
     (case py_strip w of
        Inl e \<Rightarrow> Inl e
      | Inr site \<Rightarrow>
          Inr (errors2 @
            (if site \<noteq> [] \<and> \<not> validate_url urlparse site
             then [''Please enter a valid URL''] else [])))))))"

section \<open>The data store (server/storage\_flask.py)\<close>

text \<open>
  Modelled from the spec: the \<open>ScanResult\<close> model of \<open>server/models.py\<close>, which is not
  among the sources. A row has the fields of the spec's data model; \<open>to_dict()\<close> copies
  them into a dict, which is represented by the record value itself. The identifier and
  both timestamps are set on insert: the identifier the store generates and the store's
  clock are parameters of the operations. The table is the list of its rows in insertion
  order.
\<close>

record scan_result =
  rid :: string
  business_name :: string
  website :: "string option"
  scan_data :: "json_text option"
  status :: string
  created_at :: nat
  updated_at :: nat

type_synonym store = "scan_result list"

text \<open>The dict \<open>create_scan_result\<close> receives: \<open>None\<close> is a missing key.\<close>

record scan_input =
  in_businessName :: string
  in_website :: "string option"
  in_scanData :: "json_text option"
  in_status :: "string option"

text \<open>The dict \<open>update_scan_result\<close> receives: \<open>None\<close> is a key that is not in it.\<close>

record scan_updates =
  up_businessName :: "string option"
  up_website :: "string option option"
  up_scanData :: "json_text option option"
  up_status :: "string option"

definition get_scan_result :: "string \<Rightarrow> store \<Rightarrow> scan_result option" where
  "get_scan_result scan_id db = find (\<lambda>r. rid r = scan_id) db"

definition get_all_scan_results :: "store \<Rightarrow> scan_result list" where
  "get_all_scan_results db = rev (sort_key created_at db)"

definition create_scan_result ::
  "string \<Rightarrow> nat \<Rightarrow> scan_input \<Rightarrow> store \<Rightarrow> scan_result \<times> store" where
  "create_scan_result new_id now sd db =
     (let result = \<lparr>rid = new_id,
                    business_name = in_businessName sd,
                    website = in_website sd,
                    scan_data = in_scanData sd,
                    status = (case in_status sd of None \<Rightarrow> ''pending'' | Some s \<Rightarrow> s),
                    created_at = now,
                    updated_at = now\<rparr>
      in (result, db @ [result]))"

definition apply_updates :: "nat \<Rightarrow> scan_updates \<Rightarrow> scan_result \<Rightarrow> scan_result" where
  "apply_updates now updates result =
     result\<lparr>business_name :=
              (case up_businessName updates of None \<Rightarrow> business_name result | Some v \<Rightarrow> v),
            website := (case up_website updates of None \<Rightarrow> website result | Some v \<Rightarrow> v),
            scan_data := (case up_scanData updates of None \<Rightarrow> scan_data result | Some v \<Rightarrow> v),
            status := (case up_status updates of None \<Rightarrow> status result | Some v \<Rightarrow> v),
            updated_at := now\<rparr>"

text \<open>Writing a row back: the first row under the identifier is replaced.\<close>

fun replace_row :: "string \<Rightarrow> scan_result \<Rightarrow> store \<Rightarrow> store" where
  "replace_row scan_id r' [] = []"
| "replace_row scan_id r' (r # db) =
     (if rid r = scan_id then r' # db else r # replace_row scan_id r' db)"

definition update_scan_result ::
  "nat \<Rightarrow> string \<Rightarrow> scan_updates \<Rightarrow> store \<Rightarrow> scan_result option \<times> store" where
  "update_scan_result now scan_id updates db =
     (case find (\<lambda>r. rid r = scan_id) db of
        None \<Rightarrow> (None, db)
      | Some result \<Rightarrow>
          (let result' = apply_updates now updates result
           in (Some result', replace_row scan_id result' db)))"

section \<open>The scan routes (server/api\_routes.py)\<close>

text \<open>
  A response is a status code and what \<open>jsonify\<close> or \<open>send_from_directory\<close> put in
  it: a JSON document, one stored record, the list of records, or a file of the bundle.
\<close>

datatype payload =
    Json json
  | Result scan_result
  | Results "scan_result list"
  | File string

record response =
  code :: nat
  body :: payload

definition no_data :: response where
  "no_data = \<lparr>code = 400,
     body = Json (JDict [(''success'', JBool False), (''error'', JStr ''No data provided'')])\<rparr>"

definition validation_failed :: "string list \<Rightarrow> response" where
  "validation_failed validation_errors = \<lparr>code = 400,
     body = Json (JDict [(''success'', JBool False),
                         (''error'', JStr ''Validation failed''),
                         (''details'', JList (map JStr validation_errors))])\<rparr>"

definition internal_server_error :: response where
  "internal_server_error = \<lparr>code = 500,
     body = Json (JDict [(''success'', JBool False), (''error'', JStr ''Internal server error'')])\<rparr>"

definition scan_initiated :: "string \<Rightarrow> response" where
  "scan_initiated scan_id = \<lparr>code = 200,
     body = Json (JDict [(''success'', JBool True),
                         (''scanId'', JStr scan_id),
                         (''message'', JStr ''Scan initiated successfully'')])\<rparr>"

text \<open>The \<open>details\<close> entry of a JSON response, when it has one.\<close>

definition details :: "response \<Rightarrow> json option" where
  "details r = (case body r of Json (JDict kvs) \<Rightarrow> map_of kvs ''details'' | _ \<Rightarrow> None)"

text \<open>
  The dict of lines 57 to 67. \<open>stamp\<close> is the value of
  \<open>datetime.utcnow().isoformat()\<close> at the call.
\<close>

definition initial_scan_data :: "string \<Rightarrow> json \<Rightarrow> json" where
  "initial_scan_data stamp site =
     JDict [(''timestamp'', JStr stamp),
            (''websiteAnalysis'',
               JStr (if truthy site then ''Website found and analyzed''
                     else ''No website provided'')),
            (''businessScore'', JNum 85),
            (''scanning'', JBool True)]"

definition build_scan_data :: "string \<Rightarrow> json \<Rightarrow> exn + scan_input" where
  "build_scan_data stamp data =
     (case py_item data ''businessName'' of
        Inl e \<Rightarrow> Inl e
      | Inr name \<Rightarrow>
     (case py_strip name of
        Inl e \<Rightarrow> Inl e
      | Inr name' \<Rightarrow>
     (case py_get data ''website'' (JStr []) of
        Inl e \<Rightarrow> Inl e
      | Inr w \<Rightarrow>
     (case py_strip w of
        Inl e \<Rightarrow> Inl e
      | Inr site \<Rightarrow>
     (case py_get data ''website'' JNull of
        Inl e \<Rightarrow> Inl e
      | Inr w' \<Rightarrow>
          Inr \<lparr>in_businessName = name',
               in_website = (if site = [] then None else Some site),
               in_scanData = Some (json_dumps (initial_scan_data stamp w')),
               in_status = Some ''scanning''\<rparr>)))))"

text \<open>
  The thread \<open>create_scan\<close> starts: it sleeps \<open>delay\<close> seconds, then runs
  \<open>complete_scan\<close>, which closes over the dict \<open>create_scan_result\<close> returned.
\<close>

record deferred =
  delay :: nat
  snapshot :: scan_result

text \<open>
  \<open>POST /api/scan\<close>, as a function of the parsed body and the store: the response, the
  store afterwards and the thread started, if any. Every exception raised inside the
  \<open>try\<close> ends in the 500 response.
\<close>

definition create_scan ::
  "(string \<Rightarrow> parse_result option) \<Rightarrow> string \<Rightarrow> string \<Rightarrow> nat \<Rightarrow> json \<Rightarrow> store
     \<Rightarrow> response \<times> store \<times> deferred option" where
  "create_scan urlparse stamp new_id now data db =
     (if \<not> truthy data then (no_data, db, None)
      else
        (case validate_scan_request urlparse data of
           Inl e \<Rightarrow> (internal_server_error, db, None)
         | Inr validation_errors \<Rightarrow>
             if validation_errors \<noteq> [] then (validation_failed validation_errors, db, None)
             else
               (case build_scan_data stamp data of
                  Inl e \<Rightarrow> (internal_server_error, db, None)
                | Inr sd \<Rightarrow>
                    (let (scan_result, db') = create_scan_result new_id now sd db
                     in (scan_initiated (rid scan_result), db',
                         Some \<lparr>delay = 2, snapshot = scan_result\<rparr>)))))"

text \<open>
  \<open>create_scan\<close> above is the handler from line 41 on, on the value
  \<open>request.get_json()\<close> returned. \<open>get_json\<close> is Flask's: it returns the parsed
  body, and raises a werkzeug HTTP exception (\<open>BadRequest\<close>) for a request that carries
  no JSON, such as an empty or malformed body. The call of line 39 stands inside the
  \<open>try\<close>, so the exception ends in the 500 response; \<open>post_scan\<close> is the whole
  handler.
\<close>

datatype request_body =
    NoJson
  | Parsed json

definition get_json :: "request_body \<Rightarrow> exn + json" where
  "get_json request = (case request of NoJson \<Rightarrow> Inl BadRequest | Parsed data \<Rightarrow> Inr data)"

definition post_scan ::
  "(string \<Rightarrow> parse_result option) \<Rightarrow> string \<Rightarrow> string \<Rightarrow> nat \<Rightarrow> request_body \<Rightarrow> store
     \<Rightarrow> response \<times> store \<times> deferred option" where
  "post_scan urlparse stamp new_id now request db =
     (case get_json request of
        Inl e \<Rightarrow> (internal_server_error, db, None)
      | Inr data \<Rightarrow> create_scan urlparse stamp new_id now data db)"

text \<open>
  The methods of \<open>FlaskStorage\<close> reach the database through \<open>ScanResult.query\<close> and
  \<open>db.session\<close>, which Flask-SQLAlchemy resolves through the current application
  (\<open>db.init_app(app)\<close>, line 32 of flask\_app.py). A request handler runs inside an
  application context; a caller without one gets a \<open>RuntimeError\<close> from the query, and
  the store is not touched. \<open>app_context\<close> says whether the caller has a context.
\<close>

definition storage_update_scan_result ::
  "bool \<Rightarrow> nat \<Rightarrow> string \<Rightarrow> scan_updates \<Rightarrow> store
     \<Rightarrow> exn + (scan_result option \<times> store)" where
  "storage_update_scan_result app_context now scan_id updates db =
     (if app_context then Inr (update_scan_result now scan_id updates db)
      else Inl RuntimeError)"

text \<open>
  \<open>complete_scan\<close>, with the dict it closes over as an argument; \<open>stamp\<close> and \<open>now\<close> are
  the clock at completion, \<open>completion_fields\<close> the dict of lines 74 to 83.
\<close>

definition completion_fields :: "string \<Rightarrow> (string \<times> json) list" where
  "completion_fields stamp =
     [(''completed'', JBool True),
      (''scanning'', JBool False),
      (''insights'', JList [JStr ''Strong online presence detected'',
                            JStr ''Potential for digital expansion'',
                            JStr ''Competitive market position'']),
      (''completedAt'', JStr stamp)]"

definition complete_scan ::
  "bool \<Rightarrow> string \<Rightarrow> nat \<Rightarrow> scan_result \<Rightarrow> store \<Rightarrow> exn + store" where
  "complete_scan app_context stamp now scan_result db =
     (case py_update
             (json_loads (case scan_data scan_result of
                            None \<Rightarrow> Text (JDict [])
                          | Some t \<Rightarrow> t))
             (completion_fields stamp) of
        Inl e \<Rightarrow> Inl e
      | Inr completed_data \<Rightarrow>
          (case storage_update_scan_result app_context now (rid scan_result)
                  \<lparr>up_businessName = None,
                   up_website = None,
                   up_scanData = Some (Some (json_dumps completed_data)),
                   up_status = Some ''completed''\<rparr> db of
             Inl e \<Rightarrow> Inl e
           | Inr (result, db') \<Rightarrow> Inr db'))"

text \<open>
  The thread of lines 95 to 101, started at the clock \<open>started\<close> (in seconds) and
  observed at the clock \<open>now\<close>: it sleeps \<open>delay\<close> seconds and then runs
  \<open>complete_scan\<close>. \<open>threading.Thread\<close> starts it without an application context.
  The thread has no handler: an exception ends it and leaves the store as it was.
\<close>

definition delayed_completion ::
  "string \<Rightarrow> nat \<Rightarrow> nat \<Rightarrow> deferred \<Rightarrow> store \<Rightarrow> store" where
  "delayed_completion stamp started now task db =
     (if now < started + delay task then db
      else
        (case complete_scan False stamp now (snapshot task) db of
           Inl e \<Rightarrow> db
         | Inr db' \<Rightarrow> db'))"

text \<open>\<open>GET /api/results\<close> and \<open>GET /api/results/<scan_id>\<close>.\<close>

definition get_all_results :: "store \<Rightarrow> response" where
  "get_all_results db = \<lparr>code = 200, body = Results (get_all_scan_results db)\<rparr>"

definition get_scan_result_route :: "string \<Rightarrow> store \<Rightarrow> response" where
  "get_scan_result_route scan_id db =
     (case get_scan_result scan_id db of
        None \<Rightarrow> \<lparr>code = 404,
                  body = Json (JDict [(''success'', JBool False),
                                      (''error'', JStr ''Scan result not found'')])\<rparr>
      | Some result \<Rightarrow> \<lparr>code = 200, body = Result result\<rparr>)"

section \<open>The static asset server (server/flask\_app.py)\<close>

text \<open>
  \<open>send_from_directory(app.static_folder, path)\<close> is Flask's, taken as the parameter
  \<open>send\<close>: the content of the file it serves, or the exception it raises. Flask raises
  \<open>werkzeug.exceptions.NotFound\<close>, the class line 7 of the module imports, for a path
  that is not a file of the directory; the handlers catch the built-in
  \<open>FileNotFoundError\<close>. A view that lets an exception escape returns \<open>Inl\<close>.
\<close>

definition build_not_found :: response where
  "build_not_found = \<lparr>code = 404,
     body = Json (JDict [(''error'', JStr ''React build not found''),
                         (''message'',
                            JStr ''Please ensure the React build files are in the dist folder'')])\<rparr>"

definition api_not_found :: response where
  "api_not_found = \<lparr>code = 404,
     body = Json (JDict [(''error'', JStr ''API endpoint not found'')])\<rparr>"

definition serve_react_app :: "(string \<Rightarrow> exn + string) \<Rightarrow> exn + response" where
  "serve_react_app send =
     (case send ''index.html'' of
        Inr f \<Rightarrow> Inr \<lparr>code = 200, body = File f\<rparr>
      | Inl FileNotFoundError \<Rightarrow> Inr build_not_found
      | Inl e \<Rightarrow> Inl e)"

definition serve_static :: "(string \<Rightarrow> exn + string) \<Rightarrow> string \<Rightarrow> exn + response" where
  "serve_static send path =
     (if take 4 path = ''api/'' then Inr api_not_found
      else
        (case send path of
           Inr f \<Rightarrow> Inr \<lparr>code = 200, body = File f\<rparr>
         | Inl FileNotFoundError \<Rightarrow>
             (case send ''index.html'' of
                Inr f \<Rightarrow> Inr \<lparr>code = 200, body = File f\<rparr>
              | Inl FileNotFoundError \<Rightarrow> Inr build_not_found
              | Inl e \<Rightarrow> Inl e)
         | Inl e \<Rightarrow> Inl e))"

text \<open>The handler registered for 404, on the request's path.\<close>

definition not_found :: "(string \<Rightarrow> exn + string) \<Rightarrow> string \<Rightarrow> exn + response" where
  "not_found send request_path =
     (if take 5 request_path = ''/api/'' then Inr api_not_found
      else
        (case send ''index.html'' of
           Inr f \<Rightarrow> Inr \<lparr>code = 200, body = File f\<rparr>
         | Inl FileNotFoundError \<Rightarrow> Inr build_not_found
         | Inl e \<Rightarrow> Inl e))"

text \<open>
  Flask's own static view. With \<open>static_url_path=''\<close> (lines 18 to 20) Flask registers
  the rule \<open>/<path:filename>\<close> for it before \<open>serve_static\<close>'s rule of the same shape
  is added, so that a non-root path which no API route matches is answered by this
  view; it lets every exception of \<open>send_from_directory\<close> escape.
\<close>

definition send_static_file :: "(string \<Rightarrow> exn + string) \<Rightarrow> string \<Rightarrow> exn + response" where
  "send_static_file send filename =
     (case send filename of
        Inr f \<Rightarrow> Inr \<lparr>code = 200, body = File f\<rparr>
      | Inl e \<Rightarrow> Inl e)"

text \<open>
  A request for \<open>/path\<close> that no API route matches: the root goes to
  \<open>serve_react_app\<close>, any other path to the static view, and Flask passes a
  \<open>NotFound\<close> that escapes the view to the 404 handler. An exception that escapes the
  handler too is answered by Flask with status 500, not by this code.
\<close>

definition static_request :: "(string \<Rightarrow> exn + string) \<Rightarrow> string \<Rightarrow> exn + response" where
  "static_request send path =
     (case (if path = [] then serve_react_app send else send_static_file send path) of
        Inl NotFound \<Rightarrow> not_found send (CHR ''/'' # path)
      | r \<Rightarrow> r)"

section \<open>The request fields, as the routes read them\<close>

text \<open>
  Two conditions on the fields of a body whose \<open>businessName\<close> and \<open>website\<close> are
  absent (\<open>None\<close>) or strings. \<open>name_missing\<close>: there is no business name, or it is
  the empty string. \<open>website_ok\<close> is the negation of the test of line 28: there is no
  website, or it is blank after \<open>strip\<close>, or \<open>validate_url\<close> accepts what is left.
\<close>

definition name_missing :: "string option \<Rightarrow> bool" where
  "name_missing name = (name = None \<or> name = Some [])"

definition website_ok :: "(string \<Rightarrow> parse_result option) \<Rightarrow> string option \<Rightarrow> bool" where
  "website_ok urlparse site =
     (case site of None \<Rightarrow> True | Some w \<Rightarrow> strip w = [] \<or> validate_url urlparse (strip w))"

text \<open>Values for the examples: a parser that knows one URL, and a stored row.\<close>

definition example_urlparse :: "string \<Rightarrow> parse_result option" where
  "example_urlparse url =
     (if url = ''https://acme.example''
      then Some \<lparr>scheme = ''https'', netloc = ''acme.example''\<rparr>
      else Some \<lparr>scheme = [], netloc = []\<rparr>)"

definition example_row :: "string \<Rightarrow> nat \<Rightarrow> scan_result" where
  "example_row i t = \<lparr>rid = i, business_name = ''Acme Co'', website = None, scan_data = None,
      status = ''scanning'', created_at = t, updated_at = t\<rparr>"

section \<open>Lemmas on validation and creation\<close>

lemma strip_Nil: "strip [] = []"
  by (simp add: strip_def)

lemma validate_string_fields:
  assumes "map_of kvs ''businessName'' = map_option JStr name"
    and "map_of kvs ''website'' = map_option JStr site"
  shows "validate_scan_request urlparse (JDict kvs) =
    Inr ((if name_missing name
          then [''Business name is required'',
                ''Business name must be at least 1 character long'']
          else []) @
         (if website_ok urlparse site then [] else [''Please enter a valid URL'']))"
proof (cases name)
  case None
  then show ?thesis using assms
    by (cases site) (simp_all add: validate_scan_request_def name_missing_def website_ok_def strip_Nil)
next
  case (Some s)
  then show ?thesis using assms
    by (cases site; cases "s = []")
       (simp_all add: validate_scan_request_def name_missing_def website_ok_def strip_Nil)
qed

lemma build_string_fields:
  assumes "map_of kvs ''businessName'' = Some (JStr name)"
    and "map_of kvs ''website'' = map_option JStr site"
  shows "build_scan_data stamp (JDict kvs) =
    Inr \<lparr>in_businessName = strip name,
         in_website = (case site of None \<Rightarrow> None
                       | Some w \<Rightarrow> if strip w = [] then None else Some (strip w)),
         in_scanData = Some (json_dumps (JDict
           [(''timestamp'', JStr stamp),
            (''websiteAnalysis'',
               JStr (if site = None \<or> site = Some [] then ''No website provided''
                     else ''Website found and analyzed'')),
            (''businessScore'', JNum 85),
            (''scanning'', JBool True)])),
         in_status = Some ''scanning''\<rparr>"
  using assms
  by (cases site) (simp_all add: build_scan_data_def initial_scan_data_def strip_Nil)

lemma create_scan_accepts:
  assumes "map_of kvs ''businessName'' = Some (JStr name)" and "name \<noteq> []"
    and "map_of kvs ''website'' = map_option JStr site"
    and "website_ok urlparse site"
  shows "create_scan urlparse stamp new_id now (JDict kvs) db =
    (let r = \<lparr>rid = new_id,
              business_name = strip name,
              website = (case site of None \<Rightarrow> None
                         | Some w \<Rightarrow> if strip w = [] then None else Some (strip w)),
              scan_data = Some (json_dumps (JDict
                [(''timestamp'', JStr stamp),
                 (''websiteAnalysis'',
                    JStr (if site = None \<or> site = Some [] then ''No website provided''
                          else ''Website found and analyzed'')),
                 (''businessScore'', JNum 85),
                 (''scanning'', JBool True)])),
              status = ''scanning'',
              created_at = now,
              updated_at = now\<rparr>
     in (scan_initiated new_id, db @ [r], Some \<lparr>delay = 2, snapshot = r\<rparr>))"
proof -
  have kvs: "kvs \<noteq> []" using assms(1) by auto
  have v: "validate_scan_request urlparse (JDict kvs) = Inr []"
    using validate_string_fields[of kvs "Some name" site urlparse] assms
    by (simp add: name_missing_def)
  show ?thesis
    using kvs v build_string_fields[OF assms(1) assms(3), of stamp]
    by (simp add: create_scan_def create_scan_result_def Let_def)
qed

lemma create_scan_rejects:
  assumes "kvs \<noteq> []"
    and "map_of kvs ''businessName'' = map_option JStr name"
    and "map_of kvs ''website'' = map_option JStr site"
    and "name_missing name \<or> \<not> website_ok urlparse site"
  shows "create_scan urlparse stamp new_id now (JDict kvs) db =
    (validation_failed
       ((if name_missing name
         then [''Business name is required'',
               ''Business name must be at least 1 character long'']
         else []) @
        (if website_ok urlparse site then [] else [''Please enter a valid URL''])),
     db, None)"
  using assms validate_string_fields[OF assms(2) assms(3), of urlparse]
  by (auto simp add: create_scan_def)

lemma validation_failed_not_initiated: "validation_failed errs \<noteq> scan_initiated new_id"
  by (simp add: validation_failed_def scan_initiated_def)

section \<open>Lemmas on the store\<close>

lemma get_scan_result_None: "scan_id \<notin> rid ` set db \<Longrightarrow> get_scan_result scan_id db = None"
  by (auto simp add: get_scan_result_def find_None_iff)

lemma get_scan_result_append_fresh:
  "rid r \<notin> rid ` set db \<Longrightarrow> get_scan_result (rid r) (db @ [r]) = Some r"
  by (induction db) (auto simp add: get_scan_result_def)

lemma find_rid: "find (\<lambda>r. rid r = scan_id) db = Some r \<Longrightarrow> rid r = scan_id"
  by (induction db) (auto split: if_splits)

lemma find_replace_row:
  "find (\<lambda>r. rid r = scan_id) db = Some r \<Longrightarrow>
   \<exists>i < length db. db ! i = r \<and> (\<forall>j < i. rid (db ! j) \<noteq> scan_id) \<and>
      replace_row scan_id r' db = db[i := r']"
proof (induction db)
  case Nil
  then show ?case by simp
next
  case (Cons x db)
  show ?case
  proof (cases "rid x = scan_id")
    case True
    then have "x = r" using Cons.prems by simp
    then have "0 < length (x # db) \<and> (x # db) ! 0 = r \<and>
        (\<forall>j < (0::nat). rid ((x # db) ! j) \<noteq> scan_id) \<and>
        replace_row scan_id r' (x # db) = (x # db)[0 := r']"
      using True by simp
    then show ?thesis by blast
  next
    case False
    then have "find (\<lambda>r. rid r = scan_id) db = Some r" using Cons.prems by simp
    then obtain i where i: "i < length db" "db ! i = r" "\<forall>j < i. rid (db ! j) \<noteq> scan_id"
        "replace_row scan_id r' db = db[i := r']"
      using Cons.IH by blast
    have "\<forall>j < Suc i. rid ((x # db) ! j) \<noteq> scan_id"
    proof (intro allI impI)
      fix j assume "j < Suc i"
      then show "rid ((x # db) ! j) \<noteq> scan_id"
        using False i(3) by (cases j) simp_all
    qed
    then have "Suc i < length (x # db) \<and> (x # db) ! Suc i = r \<and>
        (\<forall>j < Suc i. rid ((x # db) ! j) \<noteq> scan_id) \<and>
        replace_row scan_id r' (x # db) = (x # db)[Suc i := r']"
      using i False by simp
    then show ?thesis by blast
  qed
qed

lemma find_after_replace:
  "find (\<lambda>r. rid r = scan_id) db = Some r \<Longrightarrow> rid r' = scan_id \<Longrightarrow>
   find (\<lambda>r. rid r = scan_id) (replace_row scan_id r' db) = Some r'"
  by (induction db) (auto split: if_splits)

lemma update_found:
  assumes "get_scan_result scan_id db = Some r"
  shows "\<exists>i. update_scan_result now scan_id updates db =
            (Some (apply_updates now updates r), db[i := apply_updates now updates r])
          \<and> i < length db \<and> db ! i = r
          \<and> get_scan_result scan_id (db[i := apply_updates now updates r]) =
               Some (apply_updates now updates r)"
proof -
  define r' where "r' = apply_updates now updates r"
  have f: "find (\<lambda>r. rid r = scan_id) db = Some r"
    using assms by (simp add: get_scan_result_def)
  have rid: "rid r' = scan_id" using find_rid[OF f] by (simp add: r'_def apply_updates_def)
  obtain i where i: "i < length db" "db ! i = r" "replace_row scan_id r' db = db[i := r']"
    using find_replace_row[OF f, of r'] by blast
  have u: "update_scan_result now scan_id updates db = (Some r', db[i := r'])"
    using f i(3) by (simp add: update_scan_result_def r'_def Let_def)
  have g: "get_scan_result scan_id (db[i := r']) = Some r'"
    using find_after_replace[OF f rid] i(3) by (simp add: get_scan_result_def)
  show ?thesis using u i(1,2) g unfolding r'_def by blast
qed

lemma sorted_desc_results:
  "sorted_wrt (\<lambda>a b. created_at b \<le> created_at a) (get_all_scan_results db)"
proof -
  have "sorted (map created_at (sort_key created_at db))" by simp
  then have "sorted_wrt (\<lambda>a b. created_at a \<le> created_at b) (sort_key created_at db)"
    by (simp add: sorted_map)
  then show ?thesis by (simp add: get_all_scan_results_def sorted_wrt_rev)
qed

lemma strict_desc_results:
  assumes "distinct (map created_at db)"
  shows "sorted_wrt (\<lambda>a b. created_at b < created_at a) (get_all_scan_results db)"
proof -
  have "mset (map created_at (sort_key created_at db)) = mset (map created_at db)"
    by simp
  then have d: "distinct (map created_at (sort_key created_at db))"
    using assms mset_eq_imp_distinct_iff by blast
  have "sorted (map created_at (sort_key created_at db))" by simp
  with d have "sorted_wrt (<) (map created_at (sort_key created_at db))"
    by (simp add: strict_sorted_iff)
  then have "sorted_wrt (\<lambda>a b. created_at a < created_at b) (sort_key created_at db)"
    by (simp add: sorted_wrt_map)
  then show ?thesis by (simp add: get_all_scan_results_def sorted_wrt_rev)
qed

lemma complete_scan_in_context:
  assumes "scan_data snap = Some (json_dumps (JDict prior))"
    and "get_scan_result (rid snap) db = Some r"
  shows "\<exists>r' i. complete_scan True stamp now snap db = Inr (db[i := r'])
          \<and> i < length db \<and> db ! i = r
          \<and> get_scan_result (rid snap) (db[i := r']) = Some r'
          \<and> r' = r\<lparr>scan_data :=
                      Some (json_dumps (JDict (dict_update prior (completion_fields stamp)))),
                    status := ''completed'',
                    updated_at := now\<rparr>"
proof -
  let ?u = "\<lparr>up_businessName = None, up_website = None,
             up_scanData = Some (Some (json_dumps (JDict (dict_update prior (completion_fields stamp))))),
             up_status = Some ''completed''\<rparr>"
  obtain i where i: "update_scan_result now (rid snap) ?u db =
            (Some (apply_updates now ?u r), db[i := apply_updates now ?u r])"
      "i < length db" "db ! i = r"
      "get_scan_result (rid snap) (db[i := apply_updates now ?u r]) = Some (apply_updates now ?u r)"
    using update_found[OF assms(2), of now ?u] by blast
  have a: "apply_updates now ?u r = r\<lparr>scan_data :=
                      Some (json_dumps (JDict (dict_update prior (completion_fields stamp)))),
                    status := ''completed'',
                    updated_at := now\<rparr>"
    by (simp add: apply_updates_def)
  have "complete_scan True stamp now snap db = Inr (db[i := apply_updates now ?u r])"
    using assms(1) i(1)
    by (simp add: complete_scan_def storage_update_scan_result_def json_dumps_def)
  then show ?thesis using i(2,3,4) a by metis
qed

lemma complete_scan_without_context:
  "scan_data snap = Some (json_dumps (JDict prior)) \<Longrightarrow>
   complete_scan False stamp now snap db = Inl RuntimeError"
  by (simp add: complete_scan_def storage_update_scan_result_def json_dumps_def)

lemma delayed_completion_unchanged: "delayed_completion stamp started now task db = db"
  by (simp add: delayed_completion_def complete_scan_def storage_update_scan_result_def
      split: sum.splits)

lemma completed_document:
  "dict_update
     [(''timestamp'', JStr stamp), (''websiteAnalysis'', JStr note),
      (''businessScore'', JNum 85), (''scanning'', JBool True)]
     (completion_fields stamp') =
   [(''timestamp'', JStr stamp), (''websiteAnalysis'', JStr note),
    (''businessScore'', JNum 85), (''scanning'', JBool False),
    (''completed'', JBool True),
    (''insights'', JList [JStr ''Strong online presence detected'',
                          JStr ''Potential for digital expansion'',
                          JStr ''Competitive market position'']),
    (''completedAt'', JStr stamp')]"
  by (simp add: completion_fields_def)


section \<open>Validation failures of \<open>POST /api/scan\<close>\<close>

text \<open>
  Claim C1, as the specification states it, fails at the empty object: the business name
  is missing, yet the response is the 400 of line 41, which carries no list of messages.
\<close>

theorem create_scan_empty_object_counterexample:
  "map_of ([] :: (string \<times> json) list) ''businessName'' = None
   \<and> create_scan (\<lambda>u. None) ''2024-01-01T00:00:00'' ''id1'' 0 (JDict []) [] =
       (\<lparr>code = 400,
         body = Json (JDict [(''success'', JBool False),
                             (''error'', JStr ''No data provided'')])\<rparr>, [], None)
   \<and> details (fst (create_scan (\<lambda>u. None) ''2024-01-01T00:00:00'' ''id1'' 0 (JDict []) []))
       = None"
  by (simp add: create_scan_def no_data_def details_def)

text \<open>
  Claim C1, amended. For every body that is a non-empty JSON object whose
  \<open>businessName\<close> and \<open>website\<close> are each absent or a string: the request is rejected
  with the 400 response that lists the validation messages, the store untouched and no
  thread started, if and only if the business name is missing or empty, or the website
  is non-blank after trimming and does not parse to a non-empty scheme and a non-empty
  network location. A request without a business name gets a list that holds
  \<open>Business name is required\<close>; a request that is not rejected is answered with 200.
\<close>

theorem create_scan_rejects_iff:
  assumes "kvs \<noteq> []"
    and "map_of kvs ''businessName'' = map_option JStr name"
    and "map_of kvs ''website'' = map_option JStr site"
  shows "((\<exists>errs. errs \<noteq> [] \<and>
             create_scan urlparse stamp new_id now (JDict kvs) db =
               (validation_failed errs, db, None))
          \<longleftrightarrow> (name_missing name \<or> \<not> website_ok urlparse site))
       \<and> (name_missing name \<longrightarrow>
            (\<exists>errs. ''Business name is required'' \<in> set errs \<and>
               create_scan urlparse stamp new_id now (JDict kvs) db =
                 (validation_failed errs, db, None)))
       \<and> (\<not> (name_missing name \<or> \<not> website_ok urlparse site) \<longrightarrow>
            code (fst (create_scan urlparse stamp new_id now (JDict kvs) db)) = 200)"
proof (cases "name_missing name \<or> \<not> website_ok urlparse site")
  case True
  let ?errs = "(if name_missing name
         then [''Business name is required'',
               ''Business name must be at least 1 character long'']
         else []) @
        (if website_ok urlparse site then [] else [''Please enter a valid URL''])"
  have r: "create_scan urlparse stamp new_id now (JDict kvs) db =
      (validation_failed ?errs, db, None)"
    by (rule create_scan_rejects[OF assms True])
  have ne: "?errs \<noteq> []" using True by auto
  have "\<exists>errs. errs \<noteq> [] \<and>
      create_scan urlparse stamp new_id now (JDict kvs) db = (validation_failed errs, db, None)"
    using r ne by blast
  moreover have "name_missing name \<Longrightarrow> ''Business name is required'' \<in> set ?errs"
    by simp
  ultimately show ?thesis using True r by blast
next
  case False
  then obtain s where s: "name = Some s" "s \<noteq> []"
    by (cases name) (auto simp add: name_missing_def)
  have ok: "website_ok urlparse site" using False by simp
  have a: "create_scan urlparse stamp new_id now (JDict kvs) db =
     (let r = \<lparr>rid = new_id,
              business_name = strip s,
              website = (case site of None \<Rightarrow> None
                         | Some w \<Rightarrow> if strip w = [] then None else Some (strip w)),
              scan_data = Some (json_dumps (JDict
                [(''timestamp'', JStr stamp),
                 (''websiteAnalysis'',
                    JStr (if site = None \<or> site = Some [] then ''No website provided''
                          else ''Website found and analyzed'')),
                 (''businessScore'', JNum 85),
                 (''scanning'', JBool True)])),
              status = ''scanning'',
              created_at = now,
              updated_at = now\<rparr>
     in (scan_initiated new_id, db @ [r], Some \<lparr>delay = 2, snapshot = r\<rparr>))"
    using create_scan_accepts[of kvs s site urlparse stamp new_id now db] assms s ok by simp
  have fst: "fst (create_scan urlparse stamp new_id now (JDict kvs) db) = scan_initiated new_id"
    using a by (simp add: Let_def)
  have no: "\<not> (\<exists>errs. errs \<noteq> [] \<and>
      create_scan urlparse stamp new_id now (JDict kvs) db = (validation_failed errs, db, None))"
  proof
    assume "\<exists>errs. errs \<noteq> [] \<and>
      create_scan urlparse stamp new_id now (JDict kvs) db = (validation_failed errs, db, None)"
    then obtain errs where
      "create_scan urlparse stamp new_id now (JDict kvs) db = (validation_failed errs, db, None)"
      by blast
    then have "validation_failed errs = scan_initiated new_id" using fst by simp
    then show False by (simp add: validation_failed_not_initiated)
  qed
  have "code (fst (create_scan urlparse stamp new_id now (JDict kvs) db)) = 200"
    using fst by (simp add: scan_initiated_def)
  then show ?thesis using False no by blast
qed

theorem create_scan_rejects_iff_witness:
  "(\<exists>errs. ''Business name is required'' \<in> set errs \<and>
      create_scan (\<lambda>u. None) ''2024-01-01T00:00:00'' ''id1'' 0
          (JDict [(''website'', JStr ''acme'')]) [] =
        (validation_failed errs, [], None))
   \<and> (\<exists>errs. errs \<noteq> [] \<and>
      create_scan (\<lambda>u. None) ''2024-01-01T00:00:00'' ''id1'' 0
          (JDict [(''website'', JStr ''acme'')]) [] =
        (validation_failed errs, [], None))"
  using create_scan_rejects_iff[of "[(''website'', JStr ''acme'')]" None "Some ''acme''"
      "\<lambda>u. None" "''2024-01-01T00:00:00''" "''id1''" 0 "[]"]
  by (simp add: name_missing_def)

text \<open>
  Claim C9, on a request that carries no JSON. \<open>get_json\<close> raises inside the \<open>try\<close>
  and the handler answers with the 500 of line 109: the branch of line 41, which holds
  the 400 response with the single message \<open>No data provided\<close> and no \<open>details\<close>
  entry, is reached only by a body that parses to an empty or otherwise false value,
  such as the empty object or \<open>null\<close>. For those it runs before the fields are
  validated: validation of the empty object would have produced two messages.
\<close>

theorem post_scan_without_json:
  "post_scan urlparse stamp new_id now NoJson db = (internal_server_error, db, None)
   \<and> internal_server_error = \<lparr>code = 500,
        body = Json (JDict [(''success'', JBool False),
                            (''error'', JStr ''Internal server error'')])\<rparr>
   \<and> post_scan urlparse stamp new_id now NoJson db \<noteq> (no_data, db, None)
   \<and> post_scan urlparse stamp new_id now (Parsed (JDict [])) db = (no_data, db, None)
   \<and> post_scan urlparse stamp new_id now (Parsed JNull) db = (no_data, db, None)
   \<and> no_data = \<lparr>code = 400,
        body = Json (JDict [(''success'', JBool False), (''error'', JStr ''No data provided'')])\<rparr>
   \<and> details no_data = None
   \<and> validate_scan_request urlparse (JDict []) =
        Inr [''Business name is required'',
             ''Business name must be at least 1 character long'']"
  by (simp add: post_scan_def get_json_def create_scan_def no_data_def
      internal_server_error_def details_def validate_scan_request_def strip_def)

section \<open>Reading the store\<close>

text \<open>
  Claim C7. For an identifier that no stored scan result has,
  \<open>GET /api/results/<scan_id>\<close> answers with status 404 and the message
  \<open>Scan result not found\<close>: never with a status of the 500 class.
\<close>

theorem unknown_id_not_found:
  assumes "scan_id \<notin> rid ` set db"
  shows "get_scan_result_route scan_id db =
       \<lparr>code = 404,
        body = Json (JDict [(''success'', JBool False),
                            (''error'', JStr ''Scan result not found'')])\<rparr>
     \<and> code (get_scan_result_route scan_id db) < 500"
  using get_scan_result_None[OF assms] by (simp add: get_scan_result_route_def)

theorem unknown_id_not_found_witness:
  "get_scan_result_route ''missing'' [example_row ''a'' 1] =
       \<lparr>code = 404,
        body = Json (JDict [(''success'', JBool False),
                            (''error'', JStr ''Scan result not found'')])\<rparr>
   \<and> code (get_scan_result_route ''missing'' [example_row ''a'' 1]) < 500"
proof -
  have h: "''missing'' \<notin> rid ` set [example_row ''a'' 1]"
    by (simp add: example_row_def)
  show ?thesis by (rule unknown_id_not_found[OF h])
qed

text \<open>
  Claim C5. \<open>get_all_scan_results\<close>, which \<open>GET /api/results\<close> returns with status 200,
  holds exactly the stored scan results, ordered by creation time descending: no record
  comes before one that was created later, so a record created strictly later than
  another stands strictly earlier in the sequence, and the creation times decrease
  strictly along the sequence when no two records share one. Without records it is
  the empty sequence.
\<close>

theorem get_all_scan_results_newest_first:
  "mset (get_all_scan_results db) = mset db
   \<and> sorted_wrt (\<lambda>a b. created_at b \<le> created_at a) (get_all_scan_results db)
   \<and> (\<forall>i j. i < length db \<and> j < length db \<and>
         created_at (get_all_scan_results db ! j) < created_at (get_all_scan_results db ! i)
         \<longrightarrow> i < j)
   \<and> (distinct (map created_at db) \<longrightarrow>
        sorted_wrt (\<lambda>a b. created_at b < created_at a) (get_all_scan_results db))
   \<and> get_all_scan_results [] = []
   \<and> get_all_results db = \<lparr>code = 200, body = Results (get_all_scan_results db)\<rparr>"
proof -
  let ?res = "get_all_scan_results db"
  have m: "mset ?res = mset db" by (simp add: get_all_scan_results_def)
  have len: "length ?res = length db" by (simp add: get_all_scan_results_def)
  have s: "sorted_wrt (\<lambda>a b. created_at b \<le> created_at a) ?res"
    by (rule sorted_desc_results)
  have o: "\<forall>i j. i < length db \<and> j < length db \<and>
         created_at (?res ! j) < created_at (?res ! i) \<longrightarrow> i < j"
  proof (intro allI impI)
    fix i j
    assume a: "i < length db \<and> j < length db \<and> created_at (?res ! j) < created_at (?res ! i)"
    show "i < j"
    proof (rule ccontr)
      assume "\<not> i < j"
      then consider "j = i" | "j < i" by linarith
      then show False
      proof cases
        case 1
        then show False using a by simp
      next
        case 2
        then have "created_at (?res ! i) \<le> created_at (?res ! j)"
          using s a len by (simp add: sorted_wrt_iff_nth_less)
        then show False using a by simp
      qed
    qed
  qed
  have e: "get_all_scan_results [] = []" by (simp add: get_all_scan_results_def)
  have r: "get_all_results db = \<lparr>code = 200, body = Results ?res\<rparr>"
    by (simp add: get_all_results_def)
  have d: "distinct (map created_at db) \<longrightarrow>
        sorted_wrt (\<lambda>a b. created_at b < created_at a) ?res"
    using strict_desc_results by blast
  from m s o d e r show ?thesis by (intro conjI)
qed

theorem get_all_scan_results_newest_first_witness:
  "get_all_scan_results [example_row ''a'' 1, example_row ''b'' 3, example_row ''c'' 2]
     = [example_row ''b'' 3, example_row ''c'' 2, example_row ''a'' 1]
   \<and> created_at (get_all_scan_results
         [example_row ''a'' 1, example_row ''b'' 3, example_row ''c'' 2] ! 1)
       < created_at (get_all_scan_results
         [example_row ''a'' 1, example_row ''b'' 3, example_row ''c'' 2] ! 0)
   \<and> distinct (map created_at [example_row ''a'' 1, example_row ''b'' 3, example_row ''c'' 2])
   \<and> sorted_wrt (\<lambda>a b. created_at b < created_at a)
         (get_all_scan_results [example_row ''a'' 1, example_row ''b'' 3, example_row ''c'' 2])"
proof -
  let ?db = "[example_row ''a'' 1, example_row ''b'' 3, example_row ''c'' 2]"
  have v: "get_all_scan_results ?db =
      [example_row ''b'' 3, example_row ''c'' 2, example_row ''a'' 1]"
    by (simp add: get_all_scan_results_def example_row_def)
  have lt: "created_at (get_all_scan_results ?db ! 1) < created_at (get_all_scan_results ?db ! 0)"
    unfolding v by (simp add: example_row_def)
  have d: "distinct (map created_at ?db)"
    by (simp add: example_row_def)
  have "distinct (map created_at ?db) \<longrightarrow>
      sorted_wrt (\<lambda>a b. created_at b < created_at a) (get_all_scan_results ?db)"
    using get_all_scan_results_newest_first[of ?db] by (elim conjE)
  with d have "sorted_wrt (\<lambda>a b. created_at b < created_at a) (get_all_scan_results ?db)"
    by (rule rev_mp)
  with v lt d show ?thesis by (intro conjI)
qed

section \<open>Updating a scan result\<close>

text \<open>
  Claim C4. \<open>update_scan_result\<close> on an identifier without a record returns \<open>None\<close> and
  leaves the store as it was. Otherwise it returns the full updated record, which
  replaces the old one at its place in the table and is what a later read returns: each
  of \<open>businessName\<close>, \<open>website\<close>, \<open>scanData\<close> and \<open>status\<close> has the update's value when
  the update has the key and its old value when not, \<open>updatedAt\<close> is the time of the
  update, and the identifier and \<open>createdAt\<close> are unchanged.
\<close>

theorem update_scan_result_frame:
  "(case get_scan_result scan_id db of
      None \<Rightarrow> update_scan_result now scan_id updates db = (None, db)
    | Some r \<Rightarrow>
        (\<exists>r' i. update_scan_result now scan_id updates db = (Some r', db[i := r'])
           \<and> i < length db \<and> db ! i = r
           \<and> get_scan_result scan_id (db[i := r']) = Some r'
           \<and> rid r' = rid r
           \<and> created_at r' = created_at r
           \<and> updated_at r' = now
           \<and> business_name r' =
               (case up_businessName updates of None \<Rightarrow> business_name r | Some v \<Rightarrow> v)
           \<and> website r' = (case up_website updates of None \<Rightarrow> website r | Some v \<Rightarrow> v)
           \<and> scan_data r' = (case up_scanData updates of None \<Rightarrow> scan_data r | Some v \<Rightarrow> v)
           \<and> status r' = (case up_status updates of None \<Rightarrow> status r | Some v \<Rightarrow> v)))"
proof (cases "get_scan_result scan_id db")
  case None
  then show ?thesis by (simp add: update_scan_result_def get_scan_result_def)
next
  case (Some r)
  define r' where "r' = apply_updates now updates r"
  obtain i where i: "update_scan_result now scan_id updates db = (Some r', db[i := r'])"
      "i < length db" "db ! i = r" "get_scan_result scan_id (db[i := r']) = Some r'"
    using update_found[OF Some, of now updates] unfolding r'_def by blast
  have fields: "rid r' = rid r" "created_at r' = created_at r" "updated_at r' = now"
      "business_name r' =
         (case up_businessName updates of None \<Rightarrow> business_name r | Some v \<Rightarrow> v)"
      "website r' = (case up_website updates of None \<Rightarrow> website r | Some v \<Rightarrow> v)"
      "scan_data r' = (case up_scanData updates of None \<Rightarrow> scan_data r | Some v \<Rightarrow> v)"
      "status r' = (case up_status updates of None \<Rightarrow> status r | Some v \<Rightarrow> v)"
    by (simp_all add: r'_def apply_updates_def)
  show ?thesis
    using Some i fields by (simp del: ex_simps) blast
qed

theorem update_scan_result_frame_witness:
  "update_scan_result 7 ''a''
      \<lparr>up_businessName = None, up_website = None, up_scanData = None,
       up_status = Some ''completed''\<rparr>
      [example_row ''a'' 1, example_row ''b'' 3]
    = (Some \<lparr>rid = ''a'', business_name = ''Acme Co'', website = None, scan_data = None,
             status = ''completed'', created_at = 1, updated_at = 7\<rparr>,
       [\<lparr>rid = ''a'', business_name = ''Acme Co'', website = None, scan_data = None,
             status = ''completed'', created_at = 1, updated_at = 7\<rparr>,
        example_row ''b'' 3])
   \<and> update_scan_result 7 ''z''
      \<lparr>up_businessName = None, up_website = None, up_scanData = None,
       up_status = Some ''completed''\<rparr>
      [example_row ''a'' 1, example_row ''b'' 3]
    = (None, [example_row ''a'' 1, example_row ''b'' 3])"
  using update_scan_result_frame[where scan_id = "''a''"
      and db = "[example_row ''a'' 1, example_row ''b'' 3]" and now = 7
      and updates = "\<lparr>up_businessName = None, up_website = None, up_scanData = None,
        up_status = Some ''completed''\<rparr>"]
  by (simp add: update_scan_result_def apply_updates_def example_row_def Let_def)

section \<open>Creating a scan\<close>

text \<open>
  Claim C2. For every valid scan request (a body whose \<open>businessName\<close> is a non-empty
  string and whose \<open>website\<close> is absent or a string that is blank or a valid URL),
  \<open>create_scan\<close> adds exactly one record to the store, under the identifier the store
  generated: its status is \<open>scanning\<close> and its \<open>scanData\<close> is the document with the
  creation timestamp, the analysis note (\<open>Website found and analyzed\<close> when the request
  has a non-empty website, \<open>No website provided\<close> otherwise), the score 85 and the
  in-progress flag. The response is the 200 acknowledgment with that identifier. The
  completion step has not run when the response is returned: it is handed on as a
  thread that sleeps two seconds first, and a read of the record right after creation
  finds it with status \<open>scanning\<close>.
\<close>

theorem create_scan_persists_scanning_record:
  assumes "map_of kvs ''businessName'' = Some (JStr name)" and "name \<noteq> []"
    and "map_of kvs ''website'' = map_option JStr site"
    and "website_ok urlparse site"
    and "new_id \<notin> rid ` set db"
  shows "\<exists>r. create_scan urlparse stamp new_id now (JDict kvs) db =
            (\<lparr>code = 200,
              body = Json (JDict [(''success'', JBool True),
                                  (''scanId'', JStr new_id),
                                  (''message'', JStr ''Scan initiated successfully'')])\<rparr>,
             db @ [r],
             Some \<lparr>delay = 2, snapshot = r\<rparr>)
          \<and> rid r = new_id
          \<and> status r = ''scanning''
          \<and> scan_data r = Some (json_dumps (JDict
                [(''timestamp'', JStr stamp),
                 (''websiteAnalysis'',
                    JStr (if site = None \<or> site = Some [] then ''No website provided''
                          else ''Website found and analyzed'')),
                 (''businessScore'', JNum 85),
                 (''scanning'', JBool True)]))
          \<and> get_scan_result_route new_id (db @ [r]) = \<lparr>code = 200, body = Result r\<rparr>"
proof -
  define r where "r = \<lparr>rid = new_id,
              business_name = strip name,
              website = (case site of None \<Rightarrow> None
                         | Some w \<Rightarrow> if strip w = [] then None else Some (strip w)),
              scan_data = Some (json_dumps (JDict
                [(''timestamp'', JStr stamp),
                 (''websiteAnalysis'',
                    JStr (if site = None \<or> site = Some [] then ''No website provided''
                          else ''Website found and analyzed'')),
                 (''businessScore'', JNum 85),
                 (''scanning'', JBool True)])),
              status = ''scanning'',
              created_at = now,
              updated_at = now\<rparr>"
  have c: "create_scan urlparse stamp new_id now (JDict kvs) db =
      (scan_initiated new_id, db @ [r], Some \<lparr>delay = 2, snapshot = r\<rparr>)"
    using create_scan_accepts[OF assms(1-4), of stamp new_id now db]
    by (simp add: r_def Let_def)
  have i: "rid r = new_id" by (simp add: r_def)
  have g: "get_scan_result new_id (db @ [r]) = Some r"
    using get_scan_result_append_fresh[of r db] assms(5) i by simp
  have f: "status r = ''scanning''" by (simp add: r_def)
  have d: "scan_data r = Some (json_dumps (JDict
                [(''timestamp'', JStr stamp),
                 (''websiteAnalysis'',
                    JStr (if site = None \<or> site = Some [] then ''No website provided''
                          else ''Website found and analyzed'')),
                 (''businessScore'', JNum 85),
                 (''scanning'', JBool True)]))"
    by (simp add: r_def)
  have q: "get_scan_result_route new_id (db @ [r]) = \<lparr>code = 200, body = Result r\<rparr>"
    using g by (simp add: get_scan_result_route_def)
  show ?thesis
    using c i f d q unfolding scan_initiated_def by blast
qed

theorem create_scan_persists_scanning_record_witness:
  "\<exists>r. create_scan example_urlparse ''2024-01-01T00:00:00'' ''id1'' 100
            (JDict [(''businessName'', JStr ''Acme Co''),
                    (''website'', JStr ''https://acme.example'')]) [] =
            (\<lparr>code = 200,
              body = Json (JDict [(''success'', JBool True),
                                  (''scanId'', JStr ''id1''),
                                  (''message'', JStr ''Scan initiated successfully'')])\<rparr>,
             [r],
             Some \<lparr>delay = 2, snapshot = r\<rparr>)
          \<and> rid r = ''id1''
          \<and> status r = ''scanning''
          \<and> scan_data r = Some (json_dumps (JDict
                [(''timestamp'', JStr ''2024-01-01T00:00:00''),
                 (''websiteAnalysis'', JStr ''Website found and analyzed''),
                 (''businessScore'', JNum 85),
                 (''scanning'', JBool True)]))
          \<and> get_scan_result_route ''id1'' [r] = \<lparr>code = 200, body = Result r\<rparr>"
proof -
  have h1: "map_of [(''businessName'', JStr ''Acme Co''),
                    (''website'', JStr ''https://acme.example'')] ''businessName''
            = Some (JStr ''Acme Co'')"
    by simp
  have h2: "''Acme Co'' \<noteq> []" by simp
  have h3: "map_of [(''businessName'', JStr ''Acme Co''),
                    (''website'', JStr ''https://acme.example'')] ''website''
            = map_option JStr (Some ''https://acme.example'')"
    by simp
  have h4: "website_ok example_urlparse (Some ''https://acme.example'')"
    by (simp add: website_ok_def validate_url_def example_urlparse_def strip_def isspace_def)
  have h5: "''id1'' \<notin> rid ` set []" by simp
  show ?thesis
    using create_scan_persists_scanning_record[OF h1 h2 h3 h4 h5,
        of "''2024-01-01T00:00:00''" 100]
    by simp
qed

text \<open>
  Claim C10. For every valid scan request the persisted \<open>businessName\<close> is the
  request's value with the whitespace at both ends stripped, and the persisted
  \<open>website\<close> is the stripped value, or \<open>None\<close> when nothing is left. A website that is
  non-empty but consists of whitespace only passes validation whatever \<open>urlparse\<close>
  does, is persisted as \<open>None\<close>, and still gets the analysis note
  \<open>Website found and analyzed\<close>: the note is chosen from the unstripped value.
\<close>

theorem create_scan_normalizes_whitespace:
  assumes "map_of kvs ''businessName'' = Some (JStr name)" and "name \<noteq> []"
    and "map_of kvs ''website'' = map_option JStr site"
  shows "(website_ok urlparse site \<longrightarrow>
           (\<exists>r. create_scan urlparse stamp new_id now (JDict kvs) db =
                   (scan_initiated new_id, db @ [r], Some \<lparr>delay = 2, snapshot = r\<rparr>)
              \<and> business_name r = strip name
              \<and> website r = (case site of None \<Rightarrow> None
                              | Some w \<Rightarrow> if strip w = [] then None else Some (strip w))))
       \<and> (\<forall>w. site = Some w \<and> w \<noteq> [] \<and> strip w = [] \<longrightarrow>
           (\<exists>r. create_scan urlparse stamp new_id now (JDict kvs) db =
                   (scan_initiated new_id, db @ [r], Some \<lparr>delay = 2, snapshot = r\<rparr>)
              \<and> business_name r = strip name
              \<and> website r = None
              \<and> scan_data r = Some (json_dumps (JDict
                   [(''timestamp'', JStr stamp),
                    (''websiteAnalysis'', JStr ''Website found and analyzed''),
                    (''businessScore'', JNum 85),
                    (''scanning'', JBool True)]))))"
proof (intro conjI impI allI)
  assume ok: "website_ok urlparse site"
  show "\<exists>r. create_scan urlparse stamp new_id now (JDict kvs) db =
                   (scan_initiated new_id, db @ [r], Some \<lparr>delay = 2, snapshot = r\<rparr>)
              \<and> business_name r = strip name
              \<and> website r = (case site of None \<Rightarrow> None
                              | Some w \<Rightarrow> if strip w = [] then None else Some (strip w))"
    using create_scan_accepts[OF assms ok, of stamp new_id now db]
    by (simp add: Let_def)
next
  fix w
  assume w: "site = Some w \<and> w \<noteq> [] \<and> strip w = []"
  then have ok: "website_ok urlparse site" by (simp add: website_ok_def)
  show "\<exists>r. create_scan urlparse stamp new_id now (JDict kvs) db =
                   (scan_initiated new_id, db @ [r], Some \<lparr>delay = 2, snapshot = r\<rparr>)
              \<and> business_name r = strip name
              \<and> website r = None
              \<and> scan_data r = Some (json_dumps (JDict
                   [(''timestamp'', JStr stamp),
                    (''websiteAnalysis'', JStr ''Website found and analyzed''),
                    (''businessScore'', JNum 85),
                    (''scanning'', JBool True)]))"
    using create_scan_accepts[OF assms ok, of stamp new_id now db] w
    by (simp add: Let_def)
qed

theorem create_scan_normalizes_whitespace_witness:
  "\<exists>r. create_scan (\<lambda>u. None) ''2024-01-01T00:00:00'' ''id1'' 100
            (JDict [(''businessName'', JStr ''  Acme Co ''), (''website'', JStr ''   '')]) [] =
          (scan_initiated ''id1'', [r], Some \<lparr>delay = 2, snapshot = r\<rparr>)
        \<and> business_name r = ''Acme Co''
        \<and> website r = None
        \<and> scan_data r = Some (json_dumps (JDict
             [(''timestamp'', JStr ''2024-01-01T00:00:00''),
              (''websiteAnalysis'', JStr ''Website found and analyzed''),
              (''businessScore'', JNum 85),
              (''scanning'', JBool True)]))"
proof -
  have h1: "map_of [(''businessName'', JStr ''  Acme Co ''), (''website'', JStr ''   '')]
              ''businessName'' = Some (JStr ''  Acme Co '')"
    by simp
  have h2: "''  Acme Co '' \<noteq> []" by simp
  have h3: "map_of [(''businessName'', JStr ''  Acme Co ''), (''website'', JStr ''   '')]
              ''website'' = map_option JStr (Some ''   '')"
    by simp
  have s1: "strip ''   '' = []" by (simp add: strip_def isspace_def)
  have s2: "strip ''  Acme Co '' = ''Acme Co''" by (simp add: strip_def isspace_def)
  show ?thesis
    using create_scan_normalizes_whitespace[OF h1 h2 h3,
        of "\<lambda>u. None" "''2024-01-01T00:00:00''" "''id1''" 100 "[]"] s1 s2
    by simp
qed

section \<open>The deferred completion step\<close>

text \<open>
  Claim C3, on the thread as \<open>create_scan\<close> starts it. The request
  \<open>{"businessName": "Acme Co", "website": "https://acme.example"}\<close> creates the record
  \<open>r\<close> with status \<open>scanning\<close> and starts the thread with delay 2. Inside an
  application context the completion step would store the completed record \<open>r'\<close>:
  status \<open>completed\<close> and the creation document updated with the completion flag,
  three insights and the completion timestamp. The thread has no application context:
  its \<open>complete_scan\<close> raises \<open>RuntimeError\<close> at the update, the store is left as it
  was, and a read two seconds and more after creation still returns the record with
  status \<open>scanning\<close>.
\<close>

theorem completion_thread_leaves_record_scanning:
  "(let r = \<lparr>rid = ''id1'', business_name = ''Acme Co'',
              website = Some ''https://acme.example'',
              scan_data = Some (json_dumps (JDict
                [(''timestamp'', JStr ''2024-01-01T00:00:00''),
                 (''websiteAnalysis'', JStr ''Website found and analyzed''),
                 (''businessScore'', JNum 85),
                 (''scanning'', JBool True)])),
              status = ''scanning'', created_at = 100, updated_at = 100\<rparr>;
        r' = r\<lparr>scan_data := Some (json_dumps (JDict
                [(''timestamp'', JStr ''2024-01-01T00:00:00''),
                 (''websiteAnalysis'', JStr ''Website found and analyzed''),
                 (''businessScore'', JNum 85),
                 (''scanning'', JBool False),
                 (''completed'', JBool True),
                 (''insights'', JList [JStr ''Strong online presence detected'',
                                       JStr ''Potential for digital expansion'',
                                       JStr ''Competitive market position'']),
                 (''completedAt'', JStr ''2024-01-01T00:00:02'')])),
               status := ''completed'', updated_at := 102\<rparr>
    in create_scan example_urlparse ''2024-01-01T00:00:00'' ''id1'' 100
           (JDict [(''businessName'', JStr ''Acme Co''),
                   (''website'', JStr ''https://acme.example'')]) []
         = (scan_initiated ''id1'', [r], Some \<lparr>delay = 2, snapshot = r\<rparr>)
       \<and> complete_scan True ''2024-01-01T00:00:02'' 102 r [r] = Inr [r']
       \<and> complete_scan False ''2024-01-01T00:00:02'' 102 r [r] = Inl RuntimeError
       \<and> delayed_completion ''2024-01-01T00:00:02'' 100 102 \<lparr>delay = 2, snapshot = r\<rparr> [r]
           = [r]
       \<and> get_scan_result_route ''id1''
            (delayed_completion ''2024-01-01T00:00:02'' 100 102
               \<lparr>delay = 2, snapshot = r\<rparr> [r])
           = \<lparr>code = 200, body = Result r\<rparr>
       \<and> status r = ''scanning'')"
proof -
  have s: "strip ''Acme Co'' = ''Acme Co''"
      "strip ''https://acme.example'' = ''https://acme.example''"
    by (simp_all add: strip_def isspace_def)
  show ?thesis
    using s
    by (simp add: Let_def create_scan_def validate_scan_request_def validate_url_def
        example_urlparse_def build_scan_data_def initial_scan_data_def
        create_scan_result_def scan_initiated_def complete_scan_def
        storage_update_scan_result_def completion_fields_def update_scan_result_def
        apply_updates_def json_dumps_def delayed_completion_def
        get_scan_result_route_def get_scan_result_def strip_Nil)
qed

text \<open>
  Claim C8, on the thread as \<open>create_scan\<close> starts it. The completion step builds its
  document from the dict that \<open>create_scan_result\<close> returned at creation, not from the
  store: inside an application context it would replace a \<open>scanData\<close> written to the
  record in between by the creation-time document with the completion fields. In the
  thread the update raises \<open>RuntimeError\<close> for want of an application context, so the
  \<open>scanData\<close> written between creation and completion is not overwritten: the record
  \<open>r2\<close> that the intermediate write left is what the store holds after the thread.
\<close>

theorem intermediate_write_survives_completion:
  "(let r = \<lparr>rid = ''id1'', business_name = ''Acme Co'', website = None,
              scan_data = Some (json_dumps (JDict
                [(''timestamp'', JStr ''2024-01-01T00:00:00''),
                 (''websiteAnalysis'', JStr ''No website provided''),
                 (''businessScore'', JNum 85),
                 (''scanning'', JBool True)])),
              status = ''scanning'', created_at = 100, updated_at = 100\<rparr>;
        r2 = r\<lparr>scan_data := Some (json_dumps (JDict [(''edited'', JBool True)])),
               updated_at := 101\<rparr>;
        r' = r2\<lparr>scan_data := Some (json_dumps (JDict
                [(''timestamp'', JStr ''2024-01-01T00:00:00''),
                 (''websiteAnalysis'', JStr ''No website provided''),
                 (''businessScore'', JNum 85),
                 (''scanning'', JBool False),
                 (''completed'', JBool True),
                 (''insights'', JList [JStr ''Strong online presence detected'',
                                       JStr ''Potential for digital expansion'',
                                       JStr ''Competitive market position'']),
                 (''completedAt'', JStr ''2024-01-01T00:00:02'')])),
               status := ''completed'', updated_at := 102\<rparr>
    in create_scan example_urlparse ''2024-01-01T00:00:00'' ''id1'' 100
           (JDict [(''businessName'', JStr ''Acme Co'')]) []
         = (scan_initiated ''id1'', [r], Some \<lparr>delay = 2, snapshot = r\<rparr>)
       \<and> update_scan_result 101 ''id1''
            \<lparr>up_businessName = None, up_website = None,
             up_scanData = Some (Some (json_dumps (JDict [(''edited'', JBool True)]))),
             up_status = None\<rparr> [r]
           = (Some r2, [r2])
       \<and> complete_scan True ''2024-01-01T00:00:02'' 102 r [r2] = Inr [r']
       \<and> complete_scan False ''2024-01-01T00:00:02'' 102 r [r2] = Inl RuntimeError
       \<and> delayed_completion ''2024-01-01T00:00:02'' 100 102 \<lparr>delay = 2, snapshot = r\<rparr> [r2]
           = [r2]
       \<and> get_scan_result ''id1''
            (delayed_completion ''2024-01-01T00:00:02'' 100 102
               \<lparr>delay = 2, snapshot = r\<rparr> [r2])
           = Some r2
       \<and> scan_data r2 = Some (json_dumps (JDict [(''edited'', JBool True)])))"
proof -
  have s: "strip ''Acme Co'' = ''Acme Co''"
    by (simp add: strip_def isspace_def)
  show ?thesis
    using s
    by (simp add: Let_def create_scan_def validate_scan_request_def
        build_scan_data_def initial_scan_data_def
        create_scan_result_def scan_initiated_def complete_scan_def
        storage_update_scan_result_def completion_fields_def update_scan_result_def
        apply_updates_def json_dumps_def delayed_completion_def
        get_scan_result_def strip_Nil)
qed

section \<open>Static assets\<close>

text \<open>
  What holds of the static routes when a missing file is signalled by \<open>NotFound\<close>: a
  file of the bundle is served, a path under the API prefix that is not a file of the
  bundle gets the API's JSON 404, and any other path falls back to the entry document
  when there is one.
\<close>

lemma api_prefix_slash: "(take 5 (CHR ''/'' # path) = ''/api/'') = (take 4 path = ''api/'')"
  by (simp add: numeral_eq_Suc)

lemma static_request_file:
  "path \<noteq> [] \<Longrightarrow> send path = Inr f \<Longrightarrow>
   static_request send path = Inr \<lparr>code = 200, body = File f\<rparr>"
  by (simp add: static_request_def send_static_file_def)

lemma static_request_api:
  "take 4 path = ''api/'' \<Longrightarrow> send path = Inl NotFound \<Longrightarrow>
   static_request send path = Inr api_not_found"
  using api_prefix_slash[of path]
  by (auto simp add: static_request_def send_static_file_def not_found_def)

lemma static_request_fallback:
  assumes "path \<noteq> []" and "take 4 path \<noteq> ''api/''"
    and "send path = Inl NotFound"
    and "send ''index.html'' = Inr f"
  shows "static_request send path = Inr \<lparr>code = 200, body = File f\<rparr>"
  using assms api_prefix_slash[of path]
  by (auto simp add: static_request_def send_static_file_def not_found_def)

text \<open>
  The descriptive 404 is what the \<open>except FileNotFoundError\<close> clauses return, so
  it is reached only when the missing entry document is signalled by that exception.
\<close>

lemma build_not_found_on_FileNotFoundError:
  assumes "send ''index.html'' = Inl FileNotFoundError"
  shows "serve_react_app send = Inr build_not_found"
    and "take 4 path \<noteq> ''api/'' \<Longrightarrow> send path = Inl FileNotFoundError \<Longrightarrow>
         serve_static send path = Inr build_not_found"
    and "take 5 request_path \<noteq> ''/api/'' \<Longrightarrow> not_found send request_path = Inr build_not_found"
  using assms by (simp_all add: serve_react_app_def serve_static_def not_found_def)

text \<open>
  Claim C6, on a bundle without its entry document. \<open>send_from_directory\<close> raises
  \<open>NotFound\<close> for every path of an empty bundle. Neither the root view nor
  \<open>serve_static\<close> nor the 404 handler catches it: each lets the exception escape, and
  no request, for the root or for a client-side route, is answered with the
  descriptive 404 that the \<open>except FileNotFoundError\<close> clauses hold.
\<close>

theorem missing_entry_document_escapes:
  "serve_react_app (\<lambda>p. Inl NotFound) = Inl NotFound
   \<and> serve_static (\<lambda>p. Inl NotFound) ''dashboard'' = Inl NotFound
   \<and> not_found (\<lambda>p. Inl NotFound) ''/dashboard'' = Inl NotFound
   \<and> static_request (\<lambda>p. Inl NotFound) [] = Inl NotFound
   \<and> static_request (\<lambda>p. Inl NotFound) ''dashboard'' = Inl NotFound
   \<and> static_request (\<lambda>p. Inl NotFound) ''dashboard'' \<noteq> Inr build_not_found"
  by (simp add: serve_react_app_def serve_static_def not_found_def static_request_def
      send_static_file_def)

end
